theory Spec2Isabelle
  imports Complex_Main "HOL-Library.Log_Nat" "HOL-Library.Multiset"
begin

section \<open>JavaScript numbers\<close>

text \<open>
  The engine of \<^verbatim>\<open>src/domain/services/AnalyticsEngine.ts\<close> computes with JavaScript
  numbers. Array lengths and the counters built from them are integers; they are
  modelled as \<^typ>\<open>nat\<close>, which is exact as long as they stay below \<open>2^53\<close> (an array
  holds fewer than \<open>2^32\<close> elements). The quotients are binary64 values: a finite double
  is modelled as the rational number it denotes, and every floating operation rounds its
  exact result to the nearest double, ties to even (\<open>fl64\<close>, 53-bit significand; the
  quotients of counters are far from overflow and underflow, which are left out).
\<close>

definition round_half_even :: "rat \<Rightarrow> int" where
  "round_half_even q =
     (let f = \<lfloor>q\<rfloor>; r = q - of_int f
      in if r < 1 / 2 then f else if 1 / 2 < r then f + 1 else if even f then f else f + 1)"

text \<open>For \<open>0 < x\<close>, the \<open>e\<close> with \<open>2^e \<le> x < 2^(e+1)\<close>.\<close>

definition exponent :: "rat \<Rightarrow> int" where
  "exponent x = (if 1 \<le> x then bitlen \<lfloor>x\<rfloor> - 1 else - bitlen (\<lceil>1 / x\<rceil> - 1))"

definition fl64 :: "rat \<Rightarrow> rat" where
  "fl64 x =
     (if x = 0 then 0
      else let u = 2 powi (exponent \<bar>x\<bar> - 52)
           in sgn x * of_int (round_half_even (\<bar>x\<bar> / u)) * u)"

definition fdiv :: "rat \<Rightarrow> rat \<Rightarrow> rat" where
  "fdiv x y = fl64 (x / y)"

definition fmul :: "rat \<Rightarrow> rat \<Rightarrow> rat" where
  "fmul x y = fl64 (x * y)"

definition fsub :: "rat \<Rightarrow> rat \<Rightarrow> rat" where
  "fsub x y = fl64 (x - y)"

text \<open>\<^verbatim>\<open>Math.round\<close>: the nearest integer, a tie going up.\<close>

definition Math_round :: "rat \<Rightarrow> int" where
  "Math_round x = \<lfloor>x + 1 / 2\<rfloor>"

text \<open>\<^verbatim>\<open>a || b\<close> on numbers: \<open>0\<close> is falsy. \<^verbatim>\<open>m.get(k) || 0\<close>: so is \<^verbatim>\<open>undefined\<close>.\<close>

definition js_or :: "nat \<Rightarrow> nat \<Rightarrow> nat" where
  "js_or a b = (if a = 0 then b else a)"

fun or_undefined :: "nat option \<Rightarrow> nat \<Rightarrow> nat" where
  "or_undefined None b = b"
| "or_undefined (Some a) b = js_or a b"

section \<open>Arrays and Maps\<close>

text \<open>
  \<^verbatim>\<open>Array.prototype.sort(comparefn)\<close> is a stable sort: \<open>a\<close> stays before \<open>b\<close>
  unless \<open>comparefn(a, b) > 0\<close>. Written as the insertion sort.
\<close>

fun insert_js :: "('a \<Rightarrow> 'a \<Rightarrow> 'n::linordered_idom) \<Rightarrow> 'a \<Rightarrow> 'a list \<Rightarrow> 'a list" where
  "insert_js comparefn x [] = [x]"
| "insert_js comparefn x (y # ys) =
     (if comparefn x y \<le> 0 then x # y # ys else y # insert_js comparefn x ys)"

fun sort_js :: "('a \<Rightarrow> 'a \<Rightarrow> 'n::linordered_idom) \<Rightarrow> 'a list \<Rightarrow> 'a list" where
  "sort_js comparefn [] = []"
| "sort_js comparefn (x # xs) = insert_js comparefn x (sort_js comparefn xs)"

text \<open>
  A \<^verbatim>\<open>Map\<close> keeps its entries in the order in which their keys were first set;
  \<^verbatim>\<open>set\<close> on a key that is present replaces the value in place.
\<close>

type_synonym ('k, 'v) Map = "('k \<times> 'v) list"

definition map_get :: "('k, 'v) Map \<Rightarrow> 'k \<Rightarrow> 'v option" where
  "map_get m k = map_of m k"

fun map_set :: "('k, 'v) Map \<Rightarrow> 'k \<Rightarrow> 'v \<Rightarrow> ('k, 'v) Map" where
  "map_set [] k v = [(k, v)]"
| "map_set ((k', v') # m) k v = (if k' = k then (k', v) # m else (k', v') # map_set m k v)"

text \<open>\<^verbatim>\<open>m.set(k, (m.get(k) || 0) + 1)\<close>, the body of the three counting loops.\<close>

definition increment :: "('k, nat) Map \<Rightarrow> 'k \<Rightarrow> ('k, nat) Map" where
  "increment m k = map_set m k (or_undefined (map_get m k) 0 + 1)"

section \<open>The record store\<close>

text \<open>
  Modelled from the spec: the Prisma schema of the repository (its tables and the enum
  \<open>ActivityCategory\<close>) is not among the sources. The rows have the attributes that the data
  model of the specification lists and that the engine and the API routes read:
  \<open>ActivityCategory\<close> has the nine values of the API documentation; a post carries the
  ids of its cell, sector and district; a comment and a repost belong to a post, a reaction
  to a post or to a comment. A \<open>Date\<close> is its time value in milliseconds. A table is the
  list of its rows, in the order in which a read returns them.
\<close>

datatype ActivityCategory =
  CLEANING | CONSTRUCTION | ENVIRONMENT | HEALTH | EDUCATION
  | INFRASTRUCTURE | AGRICULTURE | SOCIAL_SERVICES | OTHER

type_synonym Date = int

record PostRow =
  post_id :: string
  post_category :: ActivityCategory
  post_hashtags :: "string list"
  post_createdAt :: Date
  post_cellId :: string
  post_sectorId :: string
  post_districtId :: string

record CommentRow =
  comment_id :: string
  comment_postId :: string
  comment_createdAt :: Date

record ReactionRow =
  reaction_id :: string
  reaction_postId :: "string option"
  reaction_commentId :: "string option"
  reaction_createdAt :: Date

record RepostRow =
  repost_id :: string
  repost_postId :: string
  repost_createdAt :: Date

record LocationRow =
  location_id :: string
  location_name :: string

record database =
  db_posts :: "PostRow list"
  db_comments :: "CommentRow list"
  db_reactions :: "ReactionRow list"
  db_reposts :: "RepostRow list"
  db_cells :: "LocationRow list"
  db_sectors :: "LocationRow list"
  db_districts :: "LocationRow list"

text \<open>\<^verbatim>\<open>where: { createdAt: { gte: startDate, lte: endDate } }\<close>\<close>

definition in_window :: "Date \<Rightarrow> Date \<Rightarrow> Date \<Rightarrow> bool" where
  "in_window startDate endDate t \<longleftrightarrow> startDate \<le> t \<and> t \<le> endDate"

text \<open>
  The nine reads of one \<^verbatim>\<open>generateSummary\<close>, in the order in which they are awaited.
  A read that fails rejects with an error; which reads fail during a call is a parameter
  of the call.
\<close>

datatype read =
  PostCount | CommentCount | ReactionCount | RepostCount
  | PostFindManyCategory | PostFindManyHashtags
  | CellFindMany | SectorFindMany | DistrictFindMany

datatype error = PrismaError string

type_synonym faults = "read \<Rightarrow> error option"

definition query :: "faults \<Rightarrow> read \<Rightarrow> 'a \<Rightarrow> error + 'a" where
  "query fs r v = (case fs r of Some e \<Rightarrow> Inl e | None \<Rightarrow> Inr v)"

definition post_count :: "faults \<Rightarrow> database \<Rightarrow> Date \<Rightarrow> Date \<Rightarrow> error + nat" where
  "post_count fs db startDate endDate =
     query fs PostCount
       (length (filter (\<lambda>p. in_window startDate endDate (post_createdAt p)) (db_posts db)))"

definition comment_count :: "faults \<Rightarrow> database \<Rightarrow> Date \<Rightarrow> Date \<Rightarrow> error + nat" where
  "comment_count fs db startDate endDate =
     query fs CommentCount
       (length (filter (\<lambda>c. in_window startDate endDate (comment_createdAt c)) (db_comments db)))"

definition reaction_count :: "faults \<Rightarrow> database \<Rightarrow> Date \<Rightarrow> Date \<Rightarrow> error + nat" where
  "reaction_count fs db startDate endDate =
     query fs ReactionCount
       (length (filter (\<lambda>r. in_window startDate endDate (reaction_createdAt r)) (db_reactions db)))"

definition repost_count :: "faults \<Rightarrow> database \<Rightarrow> Date \<Rightarrow> Date \<Rightarrow> error + nat" where
  "repost_count fs db startDate endDate =
     query fs RepostCount
       (length (filter (\<lambda>r. in_window startDate endDate (repost_createdAt r)) (db_reposts db)))"

text \<open>\<^verbatim>\<open>post.findMany({ where, select })\<close>: the selected field of the posts of the window.\<close>

definition post_findMany :: "faults \<Rightarrow> read \<Rightarrow> database \<Rightarrow> Date \<Rightarrow> Date \<Rightarrow> (PostRow \<Rightarrow> 'a) \<Rightarrow> error + 'a list" where
  "post_findMany fs r db startDate endDate select =
     query fs r
       (map select (filter (\<lambda>p. in_window startDate endDate (post_createdAt p)) (db_posts db)))"

text \<open>
  \<^verbatim>\<open>cell.findMany({ include: { posts: { where, include: { comments: true,
  reactions: true, reposts: true } } } })\<close>: every node of the level, each with its posts
  of the window, each post with all its comments, reactions and reposts.
\<close>

record PostWithRelations =
  p_category :: ActivityCategory
  p_comments :: "CommentRow list"
  p_reactions :: "ReactionRow list"
  p_reposts :: "RepostRow list"

record LocationWithPosts =
  n_name :: string
  n_id :: string
  n_posts :: "PostWithRelations list"

definition include_relations :: "database \<Rightarrow> PostRow \<Rightarrow> PostWithRelations" where
  "include_relations db p =
     \<lparr>p_category = post_category p,
      p_comments = filter (\<lambda>c. comment_postId c = post_id p) (db_comments db),
      p_reactions = filter (\<lambda>r. reaction_postId r = Some (post_id p)) (db_reactions db),
      p_reposts = filter (\<lambda>r. repost_postId r = post_id p) (db_reposts db)\<rparr>"

definition include_posts ::
  "database \<Rightarrow> (PostRow \<Rightarrow> string) \<Rightarrow> Date \<Rightarrow> Date \<Rightarrow> LocationRow \<Rightarrow> LocationWithPosts" where
  "include_posts db foreignKey startDate endDate n =
     \<lparr>n_name = location_name n, n_id = location_id n,
      n_posts = map (include_relations db)
        (filter (\<lambda>p. foreignKey p = location_id n \<and> in_window startDate endDate (post_createdAt p))
           (db_posts db))\<rparr>"

definition cell_findMany :: "faults \<Rightarrow> database \<Rightarrow> Date \<Rightarrow> Date \<Rightarrow> error + LocationWithPosts list" where
  "cell_findMany fs db startDate endDate =
     query fs CellFindMany (map (include_posts db post_cellId startDate endDate) (db_cells db))"

definition sector_findMany :: "faults \<Rightarrow> database \<Rightarrow> Date \<Rightarrow> Date \<Rightarrow> error + LocationWithPosts list" where
  "sector_findMany fs db startDate endDate =
     query fs SectorFindMany (map (include_posts db post_sectorId startDate endDate) (db_sectors db))"

definition district_findMany :: "faults \<Rightarrow> database \<Rightarrow> Date \<Rightarrow> Date \<Rightarrow> error + LocationWithPosts list" where
  "district_findMany fs db startDate endDate =
     query fs DistrictFindMany
       (map (include_posts db post_districtId startDate endDate) (db_districts db))"

section \<open>The analytics engine\<close>

record CategoryStats =
  category :: ActivityCategory
  count :: nat
  percentage :: int

record HashtagStats =
  hashtag :: string
  count :: nat
  percentage :: int

record LocationStats =
  name :: string
  id' :: string
  totalPosts :: nat
  totalEngagement :: nat
  engagementScore :: rat
  topCategories :: "CategoryStats list"

text \<open>
  An engine object holds a reference to its Prisma client and the time of the last
  summary. The class has one static field, the reference to the instance; objects live
  in a heap, addressed by their position.
\<close>

type_synonym PrismaClient = nat

record AnalyticsEngine =
  prisma :: PrismaClient
  lastUpdated :: "Date option"

record process =
  instance' :: "nat option"
  heap :: "AnalyticsEngine list"

definition constructor :: "PrismaClient \<Rightarrow> AnalyticsEngine" where
  "constructor p = \<lparr>prisma = p, lastUpdated = None\<rparr>"

definition getInstance :: "PrismaClient \<Rightarrow> process \<Rightarrow> nat \<times> process" where
  "getInstance p st =
     (case instance' st of
        None \<Rightarrow>
          (let a = length (heap st)
           in (a, st\<lparr>instance' := Some a, heap := heap st @ [constructor p]\<rparr>))
      | Some a \<Rightarrow> (a, st))"

definition resetInstance :: "process \<Rightarrow> process" where
  "resetInstance st = st\<lparr>instance' := None\<rparr>"

text \<open>Consecutive calls of \<^verbatim>\<open>getInstance\<close>, one for each client of the list.\<close>

fun getInstances :: "PrismaClient list \<Rightarrow> process \<Rightarrow> nat list \<times> process" where
  "getInstances [] st = ([], st)"
| "getInstances (p # ps) st =
     (let (a, st') = getInstance p st; (as, st'') = getInstances ps st' in (a # as, st''))"

definition calculateEngagementScore :: "nat \<Rightarrow> nat \<Rightarrow> nat \<Rightarrow> nat \<Rightarrow> rat" where
  "calculateEngagementScore posts comments reactions reposts =
     (let score = posts * 1 + comments * 2 + reactions * 1 + reposts * 3
      in fdiv (of_int (Math_round (fmul (fdiv (of_nat score) (of_nat (js_or posts 1))) 100))) 100)"

definition getCategoryStats ::
  "faults \<Rightarrow> database \<Rightarrow> Date \<Rightarrow> Date \<Rightarrow> error + CategoryStats list" where
  "getCategoryStats fs db startDate endDate =
     (case post_findMany fs PostFindManyCategory db startDate endDate post_category of
        Inl e \<Rightarrow> Inl e
      | Inr posts \<Rightarrow>
          (let categoryMap = fold (\<lambda>post m. increment m post) posts [];
               total = js_or (length posts) 1
           in Inr (sort_js (\<lambda>a b. int (CategoryStats.count b) - int (CategoryStats.count a))
                (map (\<lambda>(category, count).
                        \<lparr>category = category, count = count,
                         percentage = Math_round (fmul (fdiv (of_nat count) (of_nat total)) 100)\<rparr>)
                   categoryMap))))"

definition getHashtagStats ::
  "faults \<Rightarrow> database \<Rightarrow> Date \<Rightarrow> Date \<Rightarrow> error + HashtagStats list" where
  "getHashtagStats fs db startDate endDate =
     (case post_findMany fs PostFindManyHashtags db startDate endDate post_hashtags of
        Inl e \<Rightarrow> Inl e
      | Inr posts \<Rightarrow>
          (let hashtagMap =
                 fold (\<lambda>hashtags m.
                         if length hashtags > 0 then fold (\<lambda>tag m'. increment m' tag) hashtags m
                         else m)
                   posts [];
               total = foldl (\<lambda>a b. a + b) 1 (map snd hashtagMap)
           in Inr (take 10
                (sort_js (\<lambda>a b. int (HashtagStats.count b) - int (HashtagStats.count a))
                   (map (\<lambda>(hashtag, count).
                           \<lparr>hashtag = hashtag, count = count,
                            percentage = Math_round (fmul (fdiv (of_nat count) (of_nat total)) 100)\<rparr>)
                      hashtagMap)))))"

definition getCategoryStatsForLocation :: "ActivityCategory list \<Rightarrow> CategoryStats list" where
  "getCategoryStatsForLocation categories =
     (let categoryMap = fold (\<lambda>cat m. increment m cat) categories [];
          total = js_or (length categories) 1
      in take 5
           (sort_js (\<lambda>a b. int (CategoryStats.count b) - int (CategoryStats.count a))
              (map (\<lambda>(category, count).
                      \<lparr>category = category, count = count,
                       percentage = Math_round (fmul (fdiv (of_nat count) (of_nat total)) 100)\<rparr>)
                 categoryMap)))"

datatype locationType = Cell | Sector | District

text \<open>
  The body of the loop over the nodes of a level; the three branches of
  \<^verbatim>\<open>getLocationStats\<close> run it on the cells, the sectors and the districts.
\<close>

definition locationEntry :: "LocationWithPosts \<Rightarrow> LocationStats" where
  "locationEntry n =
     (let totalPosts = length (n_posts n);
          totalComments = foldl (\<lambda>acc post. acc + length (p_comments post)) 0 (n_posts n);
          totalReactions = foldl (\<lambda>acc post. acc + length (p_reactions post)) 0 (n_posts n);
          totalReposts = foldl (\<lambda>acc post. acc + length (p_reposts post)) 0 (n_posts n);
          totalEngagement = totalPosts + totalComments + totalReactions + totalReposts;
          categoryStats = getCategoryStatsForLocation (map p_category (n_posts n))
      in \<lparr>name = n_name n, id' = n_id n, totalPosts = totalPosts,
          totalEngagement = totalEngagement,
          engagementScore =
            calculateEngagementScore totalPosts totalComments totalReactions totalReposts,
          topCategories = categoryStats\<rparr>)"

definition getLocationStats ::
  "faults \<Rightarrow> database \<Rightarrow> Date \<Rightarrow> Date \<Rightarrow> locationType \<Rightarrow> error + LocationStats list" where
  "getLocationStats fs db startDate endDate t =
     (case (case t of
              Cell \<Rightarrow> cell_findMany fs db startDate endDate
            | Sector \<Rightarrow> sector_findMany fs db startDate endDate
            | District \<Rightarrow> district_findMany fs db startDate endDate) of
        Inl e \<Rightarrow> Inl e
      | Inr nodes \<Rightarrow>
          Inr (sort_js (\<lambda>a b. fsub (engagementScore b) (engagementScore a))
                 (map locationEntry nodes)))"

record Period =
  startDate :: Date
  endDate :: Date

record National =
  totalPosts :: nat
  totalComments :: nat
  totalReactions :: nat
  totalReposts :: nat
  totalEngagement :: nat

record AnalyticsSummary =
  period :: Period
  national :: National
  topCategories :: "CategoryStats list"
  topHashtags :: "HashtagStats list"
  cellStats :: "LocationStats list"
  sectorStats :: "LocationStats list"
  districtStats :: "LocationStats list"
  lastUpdated :: Date

text \<open>
  \<^verbatim>\<open>generateSummary\<close> on the engine \<open>this\<close>, with the contents \<open>db\<close> of the store
  behind \<^verbatim>\<open>this.prisma\<close>, the reads \<open>fs\<close> that fail and the value \<open>now\<close> of
  \<^verbatim>\<open>new Date()\<close>. It returns the summary or the error with which the call rejects,
  and the engine as the call leaves it: an \<^verbatim>\<open>await\<close> whose promise rejects ends the
  call there.
\<close>

definition await ::
  "AnalyticsEngine \<Rightarrow> error + 'a \<Rightarrow> ('a \<Rightarrow> (error + 'b) \<times> AnalyticsEngine)
     \<Rightarrow> (error + 'b) \<times> AnalyticsEngine" where
  "await this r k = (case r of Inl e \<Rightarrow> (Inl e, this) | Inr v \<Rightarrow> k v)"

definition generateSummary ::
  "faults \<Rightarrow> database \<Rightarrow> Date \<Rightarrow> Date \<Rightarrow> Date \<Rightarrow> AnalyticsEngine
     \<Rightarrow> (error + AnalyticsSummary) \<times> AnalyticsEngine" where
  "generateSummary = (\<lambda>fs db now startDate endDate this.
     await this (post_count fs db startDate endDate) (\<lambda>totalPosts.
     await this (comment_count fs db startDate endDate) (\<lambda>totalComments.
     await this (reaction_count fs db startDate endDate) (\<lambda>totalReactions.
     await this (repost_count fs db startDate endDate) (\<lambda>totalReposts.
     let totalEngagement = totalPosts + totalComments + totalReactions + totalReposts in
     await this (getCategoryStats fs db startDate endDate) (\<lambda>topCategories.
     await this (getHashtagStats fs db startDate endDate) (\<lambda>topHashtags.
     await this (getLocationStats fs db startDate endDate Cell) (\<lambda>cellStats.
     await this (getLocationStats fs db startDate endDate Sector) (\<lambda>sectorStats.
     await this (getLocationStats fs db startDate endDate District) (\<lambda>districtStats.
     let this' = this\<lparr>AnalyticsEngine.lastUpdated := Some now\<rparr> in
     (Inr \<lparr>period = \<lparr>startDate = startDate, endDate = endDate\<rparr>,
           national = \<lparr>totalPosts = totalPosts, totalComments = totalComments,
                       totalReactions = totalReactions, totalReposts = totalReposts,
                       totalEngagement = totalEngagement\<rparr>,
           topCategories = topCategories, topHashtags = topHashtags,
           cellStats = cellStats, sectorStats = sectorStats, districtStats = districtStats,
           lastUpdated = now\<rparr>,
      this')))))))))))"

definition getLastUpdated :: "AnalyticsEngine \<Rightarrow> Date option" where
  "getLastUpdated this = AnalyticsEngine.lastUpdated this"

section \<open>The statements of the specification\<close>

text \<open>
  Rounding to two decimal places as the specification describes it: multiply by 100,
  round, divide by 100.
\<close>

definition round2 :: "rat \<Rightarrow> rat" where
  "round2 x = fdiv (of_int (Math_round (fmul x 100))) 100"

text \<open>The comments, reactions and reposts of the posts that a node was fetched with.\<close>

definition totalComments_of :: "LocationWithPosts \<Rightarrow> nat" where
  "totalComments_of n = sum_list (map (\<lambda>p. length (p_comments p)) (n_posts n))"

definition totalReactions_of :: "LocationWithPosts \<Rightarrow> nat" where
  "totalReactions_of n = sum_list (map (\<lambda>p. length (p_reactions p)) (n_posts n))"

definition totalReposts_of :: "LocationWithPosts \<Rightarrow> nat" where
  "totalReposts_of n = sum_list (map (\<lambda>p. length (p_reposts p)) (n_posts n))"

text \<open>The posts of a node that lie in the window.\<close>

definition in_window_posts ::
  "database \<Rightarrow> (PostRow \<Rightarrow> string) \<Rightarrow> Date \<Rightarrow> Date \<Rightarrow> LocationRow \<Rightarrow> PostRow list" where
  "in_window_posts db foreignKey s e n =
     filter (\<lambda>p. foreignKey p = location_id n \<and> in_window s e (post_createdAt p)) (db_posts db)"

text \<open>
  A ranked list of the nodes of a level: the scores never increase along the list; its
  entries are the nodes of the level, each one once; and a node without a post in the
  window has an entry with no posts, no engagement, score 0 and no categories.
\<close>

definition ranks_every_node ::
  "database \<Rightarrow> (PostRow \<Rightarrow> string) \<Rightarrow> Date \<Rightarrow> Date \<Rightarrow> LocationRow list \<Rightarrow> LocationStats list \<Rightarrow> bool" where
  "ranks_every_node db foreignKey s e nodes stats \<longleftrightarrow>
     sorted_wrt (\<lambda>a b. engagementScore b \<le> engagementScore a) stats
     \<and> mset (map (\<lambda>st. (id' st, name st)) stats)
         = mset (map (\<lambda>n. (location_id n, location_name n)) nodes)
     \<and> (\<forall>n \<in> set nodes. in_window_posts db foreignKey s e n = [] \<longrightarrow>
           \<lparr>name = location_name n, id' = location_id n, totalPosts = 0, totalEngagement = 0,
            engagementScore = 0, topCategories = []\<rparr> \<in> set stats)"

text \<open>The reads in the order of the calls, and the error of the first one that fails.\<close>

definition all_reads :: "read list" where
  "all_reads =
     [PostCount, CommentCount, ReactionCount, RepostCount, PostFindManyCategory,
      PostFindManyHashtags, CellFindMany, SectorFindMany, DistrictFindMany]"

definition first_fault :: "faults \<Rightarrow> error option" where
  "first_fault fs = (case filter (\<lambda>r. fs r \<noteq> None) all_reads of [] \<Rightarrow> None | r # _ \<Rightarrow> fs r)"

text \<open>
  A history of calls of \<open>generateSummary\<close> on one engine, each with the reads that fail
  during it, the contents of the store, the clock and its two arguments; and the clock of
  the last call of a history in which no read failed.
\<close>

type_synonym call = "faults \<times> database \<times> Date \<times> Date \<times> Date"

fun generateSummaries :: "call list \<Rightarrow> AnalyticsEngine \<Rightarrow> AnalyticsEngine" where
  "generateSummaries [] this = this"
| "generateSummaries ((fs, db, now, s, e) # cs) this =
     generateSummaries cs (snd (generateSummary fs db now s e this))"

fun last_success :: "call list \<Rightarrow> Date option" where
  "last_success [] = None"
| "last_success ((fs, db, now, s, e) # cs) =
     (case last_success cs of
        Some t \<Rightarrow> Some t
      | None \<Rightarrow> if first_fault fs = None then Some now else None)"

text \<open>Every field of a summary but \<open>lastUpdated\<close>.\<close>

definition without_lastUpdated ::
  "AnalyticsSummary \<Rightarrow> Period \<times> National \<times> CategoryStats list \<times> HashtagStats list
     \<times> LocationStats list \<times> LocationStats list \<times> LocationStats list" where
  "without_lastUpdated smry =
     (period smry, national smry, AnalyticsSummary.topCategories smry, topHashtags smry,
      cellStats smry, sectorStats smry, districtStats smry)"

text \<open>The entry of a node that has no post in the window.\<close>

definition empty_entry :: "LocationRow \<Rightarrow> LocationStats" where
  "empty_entry n =
     \<lparr>name = location_name n, id' = location_id n, totalPosts = 0, totalEngagement = 0,
      engagementScore = 0, topCategories = []\<rparr>"

text \<open>
  The comments, reactions and reposts attached to the posts of a list, whenever they were
  created.
\<close>

definition attached_comments :: "database \<Rightarrow> PostRow list \<Rightarrow> nat" where
  "attached_comments db ps =
     sum_list (map (\<lambda>p. length (filter (\<lambda>c. comment_postId c = post_id p) (db_comments db))) ps)"

definition attached_reactions :: "database \<Rightarrow> PostRow list \<Rightarrow> nat" where
  "attached_reactions db ps =
     sum_list
       (map (\<lambda>p. length (filter (\<lambda>r. reaction_postId r = Some (post_id p)) (db_reactions db))) ps)"

definition attached_reposts :: "database \<Rightarrow> PostRow list \<Rightarrow> nat" where
  "attached_reposts db ps =
     sum_list (map (\<lambda>p. length (filter (\<lambda>r. repost_postId r = post_id p) (db_reposts db))) ps)"

text \<open>
  The list has, for every node of the level, the number of its posts in the window and,
  as engagement, that number plus the comments, reactions and reposts attached to them.
\<close>

definition counts_every_node ::
  "database \<Rightarrow> (PostRow \<Rightarrow> string) \<Rightarrow> Date \<Rightarrow> Date \<Rightarrow> LocationRow list \<Rightarrow> LocationStats list \<Rightarrow> bool" where
  "counts_every_node db foreignKey s e nodes stats \<longleftrightarrow>
     mset (map (\<lambda>st. (id' st, LocationStats.totalPosts st, LocationStats.totalEngagement st)) stats)
     = mset (map (\<lambda>n. let ps = in_window_posts db foreignKey s e n
                       in (location_id n, length ps,
                           length ps + attached_comments db ps + attached_reactions db ps
                           + attached_reposts db ps))
              nodes)"

text \<open>The store with other creation times of the comments, reactions and reposts.\<close>

definition redate ::
  "(CommentRow \<Rightarrow> Date) \<Rightarrow> (ReactionRow \<Rightarrow> Date) \<Rightarrow> (RepostRow \<Rightarrow> Date) \<Rightarrow> database \<Rightarrow> database" where
  "redate f g h db =
     db\<lparr>db_comments := map (\<lambda>c. c\<lparr>comment_createdAt := f c\<rparr>) (db_comments db),
        db_reactions := map (\<lambda>r. r\<lparr>reaction_createdAt := g r\<rparr>) (db_reactions db),
        db_reposts := map (\<lambda>r. r\<lparr>repost_createdAt := h r\<rparr>) (db_reposts db)\<rparr>"

text \<open>The distinct elements of a list, in the order in which they are first met.\<close>

fun first_seen :: "'a list \<Rightarrow> 'a list" where
  "first_seen [] = []"
| "first_seen (x # xs) = x # filter (\<lambda>y. y \<noteq> x) (first_seen xs)"

text \<open>The percentage of the specification: \<open>round(count / max(total, 1) * 100)\<close>.\<close>

definition spec_percentage :: "nat \<Rightarrow> nat \<Rightarrow> int" where
  "spec_percentage n d = Math_round (fmul (fdiv (of_nat n) (of_nat (max d 1))) 100)"

text \<open>
  A ranked breakdown of a list of categories: it has one entry for each category of the
  list and no other; an entry has the number of occurrences of its category and the
  percentage of that number in the length of the list; the counts never increase along
  the breakdown; and the categories with the same count come in the order in which they
  are first met in the list.
\<close>

definition category_breakdown :: "ActivityCategory list \<Rightarrow> CategoryStats list \<Rightarrow> bool" where
  "category_breakdown cats R \<longleftrightarrow>
     distinct (map category R) \<and> set (map category R) = set cats
     \<and> (\<forall>st \<in> set R.
           CategoryStats.count st = count_list cats (category st)
           \<and> CategoryStats.percentage st = spec_percentage (CategoryStats.count st) (length cats))
     \<and> sorted_wrt (\<lambda>a b. CategoryStats.count b \<le> CategoryStats.count a) R
     \<and> (\<forall>k. map category (filter (\<lambda>st. CategoryStats.count st = k) R)
              = filter (\<lambda>c. count_list cats c = k) (first_seen cats))"

text \<open>The first five entries of the ranked breakdown.\<close>

definition top5_breakdown :: "ActivityCategory list \<Rightarrow> CategoryStats list \<Rightarrow> bool" where
  "top5_breakdown cats T \<longleftrightarrow> (\<exists>R. category_breakdown cats R \<and> T = take 5 R)"

text \<open>
  Every node of the level has an entry, and every entry is the entry of a node, whose
  \<open>topCategories\<close> are the first five of the breakdown of the node's posts in the window.
\<close>

definition breaks_down_every_node ::
  "database \<Rightarrow> (PostRow \<Rightarrow> string) \<Rightarrow> Date \<Rightarrow> Date \<Rightarrow> LocationRow list \<Rightarrow> LocationStats list \<Rightarrow> bool" where
  "breaks_down_every_node db foreignKey s e nodes stats \<longleftrightarrow>
     (\<forall>n \<in> set nodes. \<exists>st \<in> set stats.
        id' st = location_id n \<and> name st = location_name n
        \<and> top5_breakdown (map post_category (in_window_posts db foreignKey s e n))
             (LocationStats.topCategories st))
     \<and> (\<forall>st \<in> set stats. \<exists>n \<in> set nodes.
        id' st = location_id n \<and> name st = location_name n
        \<and> top5_breakdown (map post_category (in_window_posts db foreignKey s e n))
             (LocationStats.topCategories st))"

section \<open>An example store\<close>

text \<open>
  Three posts in two cells of one sector and district, the third one later than the
  others; two comments on the first post, the second of them late; a reaction to the first
  post and one to its comment; a repost of the second post.
\<close>

definition no_faults :: faults where
  "no_faults = (\<lambda>r. None)"

definition example_db :: database where
  "example_db =
     \<lparr>db_posts =
        [\<lparr>post_id = ''p1'', post_category = CLEANING, post_hashtags = [''#a'', ''#a'', ''#b''],
          post_createdAt = 5, post_cellId = ''c1'', post_sectorId = ''s1'',
          post_districtId = ''d1''\<rparr>,
         \<lparr>post_id = ''p2'', post_category = HEALTH, post_hashtags = [''#a''],
          post_createdAt = 6, post_cellId = ''c1'', post_sectorId = ''s1'',
          post_districtId = ''d1''\<rparr>,
         \<lparr>post_id = ''p3'', post_category = CLEANING, post_hashtags = [''#c''],
          post_createdAt = 50, post_cellId = ''c2'', post_sectorId = ''s1'',
          post_districtId = ''d1''\<rparr>],
      db_comments =
        [\<lparr>comment_id = ''k1'', comment_postId = ''p1'', comment_createdAt = 7\<rparr>,
         \<lparr>comment_id = ''k2'', comment_postId = ''p1'', comment_createdAt = 100\<rparr>],
      db_reactions =
        [\<lparr>reaction_id = ''r1'', reaction_postId = Some ''p1'', reaction_commentId = None,
          reaction_createdAt = 8\<rparr>,
         \<lparr>reaction_id = ''r2'', reaction_postId = None, reaction_commentId = Some ''k1'',
          reaction_createdAt = 9\<rparr>],
      db_reposts =
        [\<lparr>repost_id = ''x1'', repost_postId = ''p2'', repost_createdAt = 9\<rparr>],
      db_cells =
        [\<lparr>location_id = ''c2'', location_name = ''Cell 2''\<rparr>,
         \<lparr>location_id = ''c1'', location_name = ''Cell 1''\<rparr>],
      db_sectors = [\<lparr>location_id = ''s1'', location_name = ''Sector 1''\<rparr>],
      db_districts = [\<lparr>location_id = ''d1'', location_name = ''District 1''\<rparr>]\<rparr>"

definition example_summary :: AnalyticsSummary where
  "example_summary =
     \<lparr>period = \<lparr>startDate = 0, endDate = 10\<rparr>,
      national = \<lparr>totalPosts = 2, totalComments = 1, totalReactions = 2, totalReposts = 1,
                  totalEngagement = 6\<rparr>,
      topCategories =
        [\<lparr>category = CLEANING, count = 1, percentage = 50\<rparr>,
         \<lparr>category = HEALTH, count = 1, percentage = 50\<rparr>],
      topHashtags =
        [\<lparr>hashtag = ''#a'', count = 3, percentage = 60\<rparr>,
         \<lparr>hashtag = ''#b'', count = 1, percentage = 20\<rparr>],
      cellStats =
        [\<lparr>name = ''Cell 1'', id' = ''c1'', totalPosts = 2, totalEngagement = 6,
          engagementScore = 5,
          topCategories =
            [\<lparr>category = CLEANING, count = 1, percentage = 50\<rparr>,
             \<lparr>category = HEALTH, count = 1, percentage = 50\<rparr>]\<rparr>,
         \<lparr>name = ''Cell 2'', id' = ''c2'', totalPosts = 0, totalEngagement = 0,
          engagementScore = 0, topCategories = []\<rparr>],
      sectorStats =
        [\<lparr>name = ''Sector 1'', id' = ''s1'', totalPosts = 2, totalEngagement = 6,
          engagementScore = 5,
          topCategories =
            [\<lparr>category = CLEANING, count = 1, percentage = 50\<rparr>,
             \<lparr>category = HEALTH, count = 1, percentage = 50\<rparr>]\<rparr>],
      districtStats =
        [\<lparr>name = ''District 1'', id' = ''d1'', totalPosts = 2, totalEngagement = 6,
          engagementScore = 5,
          topCategories =
            [\<lparr>category = CLEANING, count = 1, percentage = 50\<rparr>,
             \<lparr>category = HEALTH, count = 1, percentage = 50\<rparr>]\<rparr>],
      lastUpdated = 99\<rparr>"

text \<open>A store connection that is lost at the third read.\<close>

definition example_faults :: faults where
  "example_faults = (\<lambda>r. if r = ReactionCount then Some (PrismaError ''connection lost'') else None)"

section \<open>Properties of the numbers, of the sort and of the reads\<close>

lemma round_half_even_ge: "\<lfloor>q\<rfloor> \<le> round_half_even q"
  by (simp add: round_half_even_def Let_def)

lemma exponent_le:
  assumes "0 < x"
  shows "2 powi (exponent x) \<le> x"
proof (cases "1 \<le> x")
  case True
  then have pos: "0 < \<lfloor>x\<rfloor>" by simp
  then have b1: "1 \<le> bitlen \<lfloor>x\<rfloor>"
    using bitlen_eq_zero_iff [of "\<lfloor>x\<rfloor>"] bitlen_nonneg [of "\<lfloor>x\<rfloor>"] by linarith
  from bitlen_bounds [OF pos] have "(2::int) ^ nat (bitlen \<lfloor>x\<rfloor> - 1) \<le> \<lfloor>x\<rfloor>" by simp
  then have "(2::rat) ^ nat (bitlen \<lfloor>x\<rfloor> - 1) \<le> of_int \<lfloor>x\<rfloor>"
    by (metis of_int_le_iff of_int_numeral of_int_power)
  also have "\<dots> \<le> x" by simp
  finally show ?thesis using True b1 by (simp add: exponent_def power_int_def)
next
  case False
  define c where "c = \<lceil>1 / x\<rceil>"
  from False assms have "1 < 1 / x" by simp
  then have c2: "0 < c - 1" unfolding c_def by linarith
  from bitlen_bounds [OF c2] have "c - 1 < 2 ^ nat (bitlen (c - 1))" by simp
  then have "c \<le> 2 ^ nat (bitlen (c - 1))" by simp
  then have "(of_int c :: rat) \<le> 2 ^ nat (bitlen (c - 1))"
    by (metis of_int_le_iff of_int_numeral of_int_power)
  moreover have "1 / x \<le> of_int c" unfolding c_def by simp
  ultimately have "1 / x \<le> 2 ^ nat (bitlen (c - 1))" by linarith
  then have "1 / 2 ^ nat (bitlen (c - 1)) \<le> x"
    using assms by (simp add: field_simps)
  moreover have "1 \<le> bitlen (c - 1)"
    using c2 bitlen_eq_zero_iff [of "c - 1"] bitlen_nonneg [of "c - 1"] by linarith
  ultimately show ?thesis using False
    by (simp add: exponent_def power_int_def c_def field_simps)
qed

lemma fl64_pos:
  assumes "0 < x"
  shows "0 < fl64 x"
proof -
  define u :: rat where "u = 2 powi (exponent x - 52)"
  have upos: "0 < u" by (simp add: u_def)
  have "u \<le> 2 powi (exponent x)"
    unfolding u_def by (rule power_int_increasing) simp_all
  also have "\<dots> \<le> x" by (rule exponent_le [OF assms])
  finally have "1 \<le> x / u" using upos by simp
  then have "1 \<le> \<lfloor>x / u\<rfloor>" by simp
  with round_half_even_ge [of "x / u"] have "0 < round_half_even (x / u)" by linarith
  then have "0 < of_int (round_half_even (x / u)) * u" using upos by simp
  then show ?thesis using assms by (simp add: fl64_def u_def Let_def)
qed

lemma fl64_minus: "fl64 (- x) = - fl64 x"
  by (simp add: fl64_def Let_def sgn_minus)

lemma fl64_le_0_iff: "fl64 x \<le> 0 \<longleftrightarrow> x \<le> 0"
proof (cases "0 < x")
  case True
  with fl64_pos [of x] show ?thesis by simp
next
  case False
  show ?thesis
  proof (cases "x = 0")
    case True
    then show ?thesis by (simp add: fl64_def)
  next
    case False
    with \<open>\<not> 0 < x\<close> have "0 < - x" by simp
    from fl64_pos [OF this] have "fl64 x < 0" by (simp add: fl64_minus)
    with \<open>\<not> 0 < x\<close> show ?thesis by simp
  qed
qed

lemma js_or_max: "js_or a 1 = max a 1"
  by (auto simp: js_or_def max_def)

lemma foldl_add_sum_list:
  "foldl (\<lambda>acc x. acc + f x) (a::nat) xs = a + sum_list (map f xs)"
  by (induction xs arbitrary: a) simp_all

lemma set_insert_js: "set (insert_js cmp x ys) = insert x (set ys)"
  by (induction ys) auto

lemma mset_insert_js: "mset (insert_js cmp x ys) = add_mset x (mset ys)"
  by (induction ys) simp_all

lemma mset_sort_js: "mset (sort_js cmp xs) = mset xs"
  by (induction xs) (simp_all add: mset_insert_js)

lemma set_sort_js: "set (sort_js cmp xs) = set xs"
  by (metis mset_sort_js set_mset_mset)

lemma sorted_insert_js:
  fixes key :: "'a \<Rightarrow> 'k::linorder"
  assumes cmp: "\<And>a b. cmp a b \<le> 0 \<longleftrightarrow> key b \<le> key a"
    and "sorted_wrt (\<lambda>a b. key b \<le> key a) ys"
  shows "sorted_wrt (\<lambda>a b. key b \<le> key a) (insert_js cmp x ys)"
  using assms(2)
proof (induction ys)
  case Nil
  then show ?case by simp
next
  case (Cons y ys)
  show ?case
  proof (cases "cmp x y \<le> 0")
    case True
    then have "key y \<le> key x" by (simp add: cmp)
    with Cons.prems True show ?thesis by auto
  next
    case False
    then have "key x \<le> key y" using cmp [of x y] by simp
    with Cons False show ?thesis by (auto simp: set_insert_js)
  qed
qed

lemma sorted_sort_js:
  fixes key :: "'a \<Rightarrow> 'k::linorder"
  assumes cmp: "\<And>a b. cmp a b \<le> 0 \<longleftrightarrow> key b \<le> key a"
  shows "sorted_wrt (\<lambda>a b. key b \<le> key a) (sort_js cmp xs)"
  by (induction xs) (simp_all add: sorted_insert_js [where key = key] cmp)

lemma filter_insert_js:
  fixes key :: "'a \<Rightarrow> 'k::linorder"
  assumes cmp: "\<And>a b. cmp a b \<le> 0 \<longleftrightarrow> key b \<le> key a"
    and "sorted_wrt (\<lambda>a b. key b \<le> key a) ys"
  shows "filter (\<lambda>y. key y = k) (insert_js cmp x ys) = filter (\<lambda>y. key y = k) (x # ys)"
  using assms(2)
proof (induction ys)
  case Nil
  then show ?case by simp
next
  case (Cons y ys)
  show ?case
  proof (cases "cmp x y \<le> 0")
    case True
    then show ?thesis by simp
  next
    case False
    then have lt: "key x < key y" using cmp [of x y] by simp
    from Cons have IH: "filter (\<lambda>y. key y = k) (insert_js cmp x ys) = filter (\<lambda>y. key y = k) (x # ys)"
      by simp
    show ?thesis using False lt IH by auto
  qed
qed

lemma sort_js_stable:
  fixes key :: "'a \<Rightarrow> 'k::linorder"
  assumes cmp: "\<And>a b. cmp a b \<le> 0 \<longleftrightarrow> key b \<le> key a"
  shows "filter (\<lambda>y. key y = k) (sort_js cmp xs) = filter (\<lambda>y. key y = k) xs"
proof (induction xs)
  case Nil
  then show ?case by simp
next
  case (Cons x xs)
  have "filter (\<lambda>y. key y = k) (sort_js cmp (x # xs))
        = filter (\<lambda>y. key y = k) (x # sort_js cmp xs)"
    using filter_insert_js [where key = key, OF cmp sorted_sort_js [where key = key, OF cmp]]
    by simp
  with Cons show ?case by simp
qed

lemma getInstance_again:
  "instance' st = Some a \<Longrightarrow> getInstance p st = (a, st)"
  by (simp add: getInstance_def)

lemma getInstances_again:
  "instance' st = Some a \<Longrightarrow> getInstances ps st = (replicate (length ps) a, st)"
  by (induction ps) (simp_all add: getInstance_again)

lemma instance_getInstance:
  "instance' (snd (getInstance p st)) = Some (fst (getInstance p st))"
  by (simp add: getInstance_def Let_def split: option.splits)

lemma getInstances_Cons:
  "getInstances (p # ps) st =
     (replicate (Suc (length ps)) (fst (getInstance p st)), snd (getInstance p st))"
  using getInstances_again [OF instance_getInstance, of ps p st]
  by (simp add: case_prod_unfold Let_def)

lemma generateSummary_Inr:
  assumes "generateSummary fs db now s e this = (Inr smry, this')"
  shows "post_count fs db s e = Inr (National.totalPosts (national smry))"
    and "comment_count fs db s e = Inr (totalComments (national smry))"
    and "reaction_count fs db s e = Inr (totalReactions (national smry))"
    and "repost_count fs db s e = Inr (totalReposts (national smry))"
    and "National.totalEngagement (national smry) =
           National.totalPosts (national smry) + totalComments (national smry)
           + totalReactions (national smry) + totalReposts (national smry)"
    and "getCategoryStats fs db s e = Inr (AnalyticsSummary.topCategories smry)"
    and "getHashtagStats fs db s e = Inr (topHashtags smry)"
    and "getLocationStats fs db s e Cell = Inr (cellStats smry)"
    and "getLocationStats fs db s e Sector = Inr (sectorStats smry)"
    and "getLocationStats fs db s e District = Inr (districtStats smry)"
    and "period smry = \<lparr>startDate = s, endDate = e\<rparr>"
    and "AnalyticsSummary.lastUpdated smry = now"
    and "this' = this\<lparr>AnalyticsEngine.lastUpdated := Some now\<rparr>"
  using assms
  by (auto simp: generateSummary_def await_def Let_def split: sum.splits)

lemma example_reads:
  "post_count no_faults example_db 0 10 = Inr 2"
  "comment_count no_faults example_db 0 10 = Inr 1"
  "reaction_count no_faults example_db 0 10 = Inr 2"
  "repost_count no_faults example_db 0 10 = Inr 1"
  "getCategoryStats no_faults example_db 0 10
     = Inr (AnalyticsSummary.topCategories example_summary)"
  "getHashtagStats no_faults example_db 0 10 = Inr (topHashtags example_summary)"
  "getLocationStats no_faults example_db 0 10 Cell = Inr (cellStats example_summary)"
  "getLocationStats no_faults example_db 0 10 Sector = Inr (sectorStats example_summary)"
  "getLocationStats no_faults example_db 0 10 District = Inr (districtStats example_summary)"
  by code_simp+

lemma example_run:
  "generateSummary no_faults example_db 99 0 10 (constructor 0)
     = (Inr example_summary, \<lparr>prisma = 0, lastUpdated = Some 99\<rparr>)"
  unfolding generateSummary_def await_def example_reads Let_def
  by (simp add: example_summary_def constructor_def)

lemma getHashtagStats_Inr:
  "getHashtagStats fs db s e = Inr hs \<Longrightarrow>
     \<exists>xs. hs = take 10
       (sort_js (\<lambda>a b. int (HashtagStats.count b) - int (HashtagStats.count a)) xs)"
  by (auto simp: getHashtagStats_def Let_def split: sum.splits)

section \<open>The engagement score\<close>

text \<open>
  C2. For all counts \<open>p\<close>, \<open>c\<close>, \<open>r\<close>, \<open>rp\<close> the engagement score is
  \<open>round2 ((p*1 + c*2 + r*1 + rp*3) / max p 1)\<close>, in floating arithmetic; the score of
  a node is the score of the number of its posts and of their comments, reactions and
  reposts; one post alone scores 1, and two posts with two comments, one reaction and one
  repost score 5.
\<close>

theorem engagementScore_formula:
  "calculateEngagementScore p c r rp
     = round2 (fdiv (of_nat (p * 1 + c * 2 + r * 1 + rp * 3)) (of_nat (max p 1)))
   \<and> engagementScore (locationEntry n)
     = calculateEngagementScore (length (n_posts n)) (totalComments_of n)
         (totalReactions_of n) (totalReposts_of n)
   \<and> calculateEngagementScore 1 0 0 0 = 1
   \<and> calculateEngagementScore 2 2 1 1 = 5"
proof -
  have "calculateEngagementScore p c r rp
     = round2 (fdiv (of_nat (p * 1 + c * 2 + r * 1 + rp * 3)) (of_nat (max p 1)))"
    unfolding calculateEngagementScore_def round2_def Let_def js_or_max by (rule refl)
  moreover have "engagementScore (locationEntry n)
     = calculateEngagementScore (length (n_posts n)) (totalComments_of n)
         (totalReactions_of n) (totalReposts_of n)"
    by (simp add: locationEntry_def Let_def foldl_add_sum_list totalComments_of_def
        totalReactions_of_def totalReposts_of_def)
  moreover have "calculateEngagementScore 1 0 0 0 = 1"
    by code_simp
  moreover have "calculateEngagementScore 2 2 1 1 = 5"
    by code_simp
  ultimately show ?thesis by simp
qed

section \<open>The hashtag ranking\<close>

text \<open>
  C7. In every summary, \<open>topHashtags\<close> has at most ten entries and their counts never
  increase along the list.
\<close>

theorem topHashtags_top10_sorted:
  assumes "generateSummary fs db now s e this = (Inr smry, this')"
  shows "length (topHashtags smry) \<le> 10
     \<and> sorted_wrt (\<lambda>a b. HashtagStats.count b \<le> HashtagStats.count a) (topHashtags smry)"
proof -
  from getHashtagStats_Inr [OF generateSummary_Inr(7) [OF assms]]
  obtain xs where "topHashtags smry
      = take 10 (sort_js (\<lambda>a b. int (HashtagStats.count b) - int (HashtagStats.count a)) xs)"
    by blast
  moreover have "sorted_wrt (\<lambda>a b. HashtagStats.count b \<le> HashtagStats.count a)
      (sort_js (\<lambda>a b. int (HashtagStats.count b) - int (HashtagStats.count a)) xs)"
    by (rule sorted_sort_js) simp
  ultimately show ?thesis
    by (simp add: sorted_wrt_take)
qed

theorem topHashtags_top10_sorted_witness:
  "generateSummary no_faults example_db 99 0 10 (constructor 0)
     = (Inr example_summary, \<lparr>prisma = 0, lastUpdated = Some 99\<rparr>)
   \<and> length (topHashtags example_summary) \<le> 10
   \<and> sorted_wrt (\<lambda>a b. HashtagStats.count b \<le> HashtagStats.count a)
        (topHashtags example_summary)"
  using topHashtags_top10_sorted [OF example_run] example_run by simp

section \<open>The singleton\<close>

text \<open>
  C10. Consecutive calls of \<open>getInstance\<close>, with no \<open>resetInstance\<close> between them, all
  return the reference that the first of them returns, and leave the process as the first
  call left it: the clients passed to the later calls are ignored. When there is no
  instance yet, the first call creates it, at a fresh address, with the client of that
  call, which the instance still holds after the later calls; when there is one, the call
  returns it and changes nothing.
\<close>

theorem getInstance_singleton:
  "getInstances (p # ps) st
     = (replicate (Suc (length ps)) (fst (getInstance p st)), snd (getInstance p st))
   \<and> (instance' st = None \<longrightarrow>
        getInstance p st
          = (length (heap st),
             st\<lparr>instance' := Some (length (heap st)), heap := heap st @ [constructor p]\<rparr>)
        \<and> prisma (heap (snd (getInstances (p # ps) st)) ! fst (getInstance p st)) = p)
   \<and> (\<forall>a. instance' st = Some a \<longrightarrow> getInstance p st = (a, st))"
proof -
  have first: "instance' st = None \<Longrightarrow> getInstance p st
      = (length (heap st),
         st\<lparr>instance' := Some (length (heap st)), heap := heap st @ [constructor p]\<rparr>)"
    by (simp add: getInstance_def Let_def)
  have "instance' st = None \<Longrightarrow>
      prisma (heap (snd (getInstances (p # ps) st)) ! fst (getInstance p st)) = p"
    unfolding getInstances_Cons by (simp add: first constructor_def)
  with first show ?thesis
    using getInstances_Cons [of p ps st] by (simp add: getInstance_again)
qed

theorem getInstance_singleton_witness:
  "instance' \<lparr>instance' = None, heap = []\<rparr> = None
   \<and> getInstances [7, 8, 9] \<lparr>instance' = None, heap = []\<rparr>
       = ([0, 0, 0], \<lparr>instance' = Some 0, heap = [\<lparr>prisma = 7, lastUpdated = None\<rparr>]\<rparr>)
   \<and> instance' \<lparr>instance' = Some 0, heap = [\<lparr>prisma = 7, lastUpdated = None\<rparr>]\<rparr> = Some 0
   \<and> getInstance 8 \<lparr>instance' = Some 0, heap = [\<lparr>prisma = 7, lastUpdated = None\<rparr>]\<rparr>
       = (0, \<lparr>instance' = Some 0, heap = [\<lparr>prisma = 7, lastUpdated = None\<rparr>]\<rparr>)"
  using getInstance_singleton [of 7 "[8, 9]" "\<lparr>instance' = None, heap = []\<rparr>"]
    getInstance_singleton [of 8 "[]" "\<lparr>instance' = Some 0, heap = [\<lparr>prisma = 7, lastUpdated = None\<rparr>]\<rparr>"]
  by (simp add: getInstance_def constructor_def Let_def)

section \<open>The location rankings\<close>

lemma fsub_cmp: "fsub y x \<le> 0 \<longleftrightarrow> y \<le> x"
  by (simp add: fsub_def fl64_le_0_iff)

lemma getLocationStats_Inr:
  assumes "getLocationStats fs db s e t = Inr L"
  shows "L = sort_js (\<lambda>a b. fsub (engagementScore b) (engagementScore a))
           (map locationEntry
              (case t of
                 Cell \<Rightarrow> map (include_posts db post_cellId s e) (db_cells db)
               | Sector \<Rightarrow> map (include_posts db post_sectorId s e) (db_sectors db)
               | District \<Rightarrow> map (include_posts db post_districtId s e) (db_districts db)))"
  using assms
  by (auto simp: getLocationStats_def cell_findMany_def sector_findMany_def
      district_findMany_def query_def split: sum.splits locationType.splits option.splits)

lemma fl64_0: "fl64 0 = 0"
  by (simp add: fl64_def)

lemma score_zero: "calculateEngagementScore 0 0 0 0 = 0"
  by code_simp

lemma getCategoryStatsForLocation_Nil: "getCategoryStatsForLocation [] = []"
  by (simp add: getCategoryStatsForLocation_def)

lemma locationEntry_no_posts:
  "n_posts n = [] \<Longrightarrow>
     locationEntry n = \<lparr>name = n_name n, id' = n_id n, totalPosts = 0, totalEngagement = 0,
        engagementScore = 0, topCategories = []\<rparr>"
  by (simp add: locationEntry_def score_zero getCategoryStatsForLocation_Nil)

lemma ranks_every_node_sort:
  "ranks_every_node db foreignKey s e nodes
     (sort_js (\<lambda>a b. fsub (engagementScore b) (engagementScore a))
        (map (locationEntry \<circ> include_posts db foreignKey s e) nodes))"
proof -
  let ?L = "map (locationEntry \<circ> include_posts db foreignKey s e) nodes"
  let ?S = "sort_js (\<lambda>a b. fsub (engagementScore b) (engagementScore a)) ?L"
  have "sorted_wrt (\<lambda>a b. engagementScore b \<le> engagementScore a) ?S"
    by (rule sorted_sort_js) (rule fsub_cmp)
  moreover have "mset (map (\<lambda>st. (id' st, name st)) ?S)
      = mset (map (\<lambda>n. (location_id n, location_name n)) nodes)"
  proof -
    have "mset (map (\<lambda>st. (id' st, name st)) ?S) = mset (map (\<lambda>st. (id' st, name st)) ?L)"
      by (simp only: mset_map mset_sort_js)
    also have "map (\<lambda>st. (id' st, name st)) ?L = map (\<lambda>n. (location_id n, location_name n)) nodes"
      by (simp add: locationEntry_def include_posts_def Let_def)
    finally show ?thesis .
  qed
  moreover have "\<lparr>name = location_name n, id' = location_id n, totalPosts = 0,
        totalEngagement = 0, engagementScore = 0, topCategories = []\<rparr> \<in> set ?S"
    if "n \<in> set nodes" and "in_window_posts db foreignKey s e n = []" for n
  proof -
    have "n_posts (include_posts db foreignKey s e n) = []"
      using that(2) by (simp add: include_posts_def in_window_posts_def)
    from locationEntry_no_posts [OF this]
    have "locationEntry (include_posts db foreignKey s e n)
        = \<lparr>name = location_name n, id' = location_id n, totalPosts = 0,
           totalEngagement = 0, engagementScore = 0, topCategories = []\<rparr>"
      by (simp add: include_posts_def)
    moreover have "locationEntry (include_posts db foreignKey s e n) \<in> set ?S"
      using that(1) by (simp add: set_sort_js)
    ultimately show ?thesis by simp
  qed
  ultimately show ?thesis
    unfolding ranks_every_node_def by blast
qed

text \<open>
  C4. In every summary, each of \<open>cellStats\<close>, \<open>sectorStats\<close> and \<open>districtStats\<close> is
  sorted by \<open>engagementScore\<close>, highest first, and lists every node of its level exactly
  once; a node with no post in the window is kept, with \<open>engagementScore = 0\<close> and an
  empty \<open>topCategories\<close>.
\<close>

theorem location_stats_ranked:
  assumes "generateSummary fs db now s e this = (Inr smry, this')"
  shows "ranks_every_node db post_cellId s e (db_cells db) (cellStats smry)
     \<and> ranks_every_node db post_sectorId s e (db_sectors db) (sectorStats smry)
     \<and> ranks_every_node db post_districtId s e (db_districts db) (districtStats smry)"
  using getLocationStats_Inr [OF generateSummary_Inr(8) [OF assms]]
    getLocationStats_Inr [OF generateSummary_Inr(9) [OF assms]]
    getLocationStats_Inr [OF generateSummary_Inr(10) [OF assms]]
  by (simp add: ranks_every_node_sort)

theorem location_stats_ranked_witness:
  "generateSummary no_faults example_db 99 0 10 (constructor 0)
     = (Inr example_summary, \<lparr>prisma = 0, lastUpdated = Some 99\<rparr>)
   \<and> ranks_every_node example_db post_cellId 0 10 (db_cells example_db)
        (cellStats example_summary)
   \<and> ranks_every_node example_db post_sectorId 0 10 (db_sectors example_db)
        (sectorStats example_summary)
   \<and> ranks_every_node example_db post_districtId 0 10 (db_districts example_db)
        (districtStats example_summary)
   \<and> \<lparr>location_id = ''c2'', location_name = ''Cell 2''\<rparr> \<in> set (db_cells example_db)
   \<and> in_window_posts example_db post_cellId 0 10
        \<lparr>location_id = ''c2'', location_name = ''Cell 2''\<rparr> = []
   \<and> \<lparr>name = ''Cell 2'', id' = ''c2'', totalPosts = 0, totalEngagement = 0,
        engagementScore = 0, topCategories = []\<rparr> \<in> set (cellStats example_summary)"
  using location_stats_ranked [OF example_run] example_run
  by (simp add: example_db_def example_summary_def in_window_posts_def in_window_def)

section \<open>Failing reads\<close>

lemma first_fault_unfold:
  "first_fault fs =
     (case fs PostCount of Some x \<Rightarrow> Some x | None \<Rightarrow>
      case fs CommentCount of Some x \<Rightarrow> Some x | None \<Rightarrow>
      case fs ReactionCount of Some x \<Rightarrow> Some x | None \<Rightarrow>
      case fs RepostCount of Some x \<Rightarrow> Some x | None \<Rightarrow>
      case fs PostFindManyCategory of Some x \<Rightarrow> Some x | None \<Rightarrow>
      case fs PostFindManyHashtags of Some x \<Rightarrow> Some x | None \<Rightarrow>
      case fs CellFindMany of Some x \<Rightarrow> Some x | None \<Rightarrow>
      case fs SectorFindMany of Some x \<Rightarrow> Some x | None \<Rightarrow>
      fs DistrictFindMany)"
  by (simp add: first_fault_def all_reads_def split: option.splits)

lemma first_fault_None: "first_fault fs = None \<longleftrightarrow> (\<forall>r. fs r = None)"
proof
  assume none: "first_fault fs = None"
  show "\<forall>r. fs r = None"
  proof
    fix r
    from none show "fs r = None"
      unfolding first_fault_unfold by (cases r) (simp_all split: option.splits)
  qed
next
  assume "\<forall>r. fs r = None"
  then show "first_fault fs = None" by (simp add: first_fault_def)
qed

lemma first_fault_Some: "first_fault fs = Some err \<Longrightarrow> \<exists>r. fs r = Some err"
  unfolding first_fault_unfold by (auto split: option.splits)

lemma query_Inl: "query fs r v = Inl err \<longleftrightarrow> fs r = Some err"
  by (simp add: query_def split: option.splits)

lemma query_Inr: "query fs r v = Inr w \<longleftrightarrow> fs r = None \<and> w = v"
  by (auto simp: query_def split: option.splits)

lemma reads_Inl:
  "post_count fs db s e = Inl err \<longleftrightarrow> fs PostCount = Some err"
  "comment_count fs db s e = Inl err \<longleftrightarrow> fs CommentCount = Some err"
  "reaction_count fs db s e = Inl err \<longleftrightarrow> fs ReactionCount = Some err"
  "repost_count fs db s e = Inl err \<longleftrightarrow> fs RepostCount = Some err"
  "getCategoryStats fs db s e = Inl err \<longleftrightarrow> fs PostFindManyCategory = Some err"
  "getHashtagStats fs db s e = Inl err \<longleftrightarrow> fs PostFindManyHashtags = Some err"
  "getLocationStats fs db s e Cell = Inl err \<longleftrightarrow> fs CellFindMany = Some err"
  "getLocationStats fs db s e Sector = Inl err \<longleftrightarrow> fs SectorFindMany = Some err"
  "getLocationStats fs db s e District = Inl err \<longleftrightarrow> fs DistrictFindMany = Some err"
  by (auto simp: post_count_def comment_count_def reaction_count_def repost_count_def
      getCategoryStats_def getHashtagStats_def getLocationStats_def post_findMany_def
      cell_findMany_def sector_findMany_def district_findMany_def query_def Let_def
      split: sum.splits option.splits)

lemma reads_Inr:
  "post_count fs db s e = Inr n \<Longrightarrow> fs PostCount = None"
  "comment_count fs db s e = Inr n \<Longrightarrow> fs CommentCount = None"
  "reaction_count fs db s e = Inr n \<Longrightarrow> fs ReactionCount = None"
  "repost_count fs db s e = Inr n \<Longrightarrow> fs RepostCount = None"
  "getCategoryStats fs db s e = Inr cs \<Longrightarrow> fs PostFindManyCategory = None"
  "getHashtagStats fs db s e = Inr hs \<Longrightarrow> fs PostFindManyHashtags = None"
  "getLocationStats fs db s e Cell = Inr ls \<Longrightarrow> fs CellFindMany = None"
  "getLocationStats fs db s e Sector = Inr ls \<Longrightarrow> fs SectorFindMany = None"
  "getLocationStats fs db s e District = Inr ls \<Longrightarrow> fs DistrictFindMany = None"
  by (auto simp: post_count_def comment_count_def reaction_count_def repost_count_def
      getCategoryStats_def getHashtagStats_def getLocationStats_def post_findMany_def
      cell_findMany_def sector_findMany_def district_findMany_def query_def Let_def
      split: sum.splits option.splits)

lemma generateSummary_fault:
  assumes "first_fault fs = Some err"
  shows "generateSummary fs db now s e this = (Inl err, this)"
  using assms unfolding first_fault_unfold generateSummary_def await_def Let_def
  by (auto split: sum.splits simp: reads_Inl dest!: reads_Inr)

lemma generateSummary_ok:
  assumes "first_fault fs = None"
  shows "\<exists>smry. generateSummary fs db now s e this
           = (Inr smry, this\<lparr>AnalyticsEngine.lastUpdated := Some now\<rparr>)"
  using assms unfolding first_fault_None generateSummary_def await_def Let_def
  by (auto split: sum.splits simp: reads_Inl)

lemma getLastUpdated_generateSummaries:
  "getLastUpdated (generateSummaries cs this)
     = (case last_success cs of Some t \<Rightarrow> Some t | None \<Rightarrow> getLastUpdated this)"
proof (induction cs arbitrary: this)
  case Nil
  then show ?case by simp
next
  case (Cons c cs)
  obtain fs db now s e where c: "c = (fs, db, now, s, e)" by (cases c)
  show ?case
  proof (cases "first_fault fs")
    case None
    from generateSummary_ok [OF None, of db now s e this]
    have "snd (generateSummary fs db now s e this)
        = this\<lparr>AnalyticsEngine.lastUpdated := Some now\<rparr>"
      by auto
    then show ?thesis
      by (simp add: c Cons.IH None split: option.splits) (simp add: getLastUpdated_def)
  next
    case (Some err)
    from generateSummary_fault [OF Some, of db now s e this]
    show ?thesis
      by (simp add: c Cons.IH Some split: option.splits)
  qed
qed

text \<open>
  C9. When a read of the store fails during \<open>generateSummary\<close>, the call rejects with the
  error of a failed read, returns no summary and leaves the engine as it was; when no read
  fails it returns a summary and sets \<open>lastUpdated\<close> to the clock. So \<open>getLastUpdated\<close> is
  \<open>null\<close> on a new engine and, after any history of calls, the clock of the last call in
  which no read failed, or still \<open>null\<close> when there is none.
\<close>

theorem store_failure_propagates:
  "((\<exists>r. fs r \<noteq> None) \<longrightarrow>
      (\<exists>r err. fs r = Some err \<and> generateSummary fs db now s e this = (Inl err, this)))
   \<and> ((\<forall>r. fs r = None) \<longrightarrow>
      (\<exists>smry. generateSummary fs db now s e this
         = (Inr smry, this\<lparr>AnalyticsEngine.lastUpdated := Some now\<rparr>)))
   \<and> getLastUpdated (constructor p) = None
   \<and> getLastUpdated (generateSummaries cs (constructor p)) = last_success cs"
proof -
  have "\<exists>r err. fs r = Some err \<and> generateSummary fs db now s e this = (Inl err, this)"
    if "\<exists>r. fs r \<noteq> None"
  proof -
    from that have "first_fault fs \<noteq> None" by (simp add: first_fault_None)
    then obtain err where err: "first_fault fs = Some err" by blast
    from first_fault_Some [OF err] generateSummary_fault [OF err]
    show ?thesis by blast
  qed
  moreover have "\<exists>smry. generateSummary fs db now s e this
         = (Inr smry, this\<lparr>AnalyticsEngine.lastUpdated := Some now\<rparr>)"
    if "\<forall>r. fs r = None"
    using that generateSummary_ok [of fs] by (simp add: first_fault_None)
  moreover have "getLastUpdated (constructor p) = None"
    by (simp add: getLastUpdated_def constructor_def)
  ultimately show ?thesis
    by (simp add: getLastUpdated_generateSummaries split: option.splits)
qed

theorem store_failure_propagates_witness:
  "(\<exists>r. example_faults r \<noteq> None)
   \<and> (\<exists>r err. example_faults r = Some err
        \<and> generateSummary example_faults example_db 99 0 10 (constructor 0)
            = (Inl err, constructor 0))
   \<and> (\<forall>r. no_faults r = None)
   \<and> (\<exists>smry. generateSummary no_faults example_db 99 0 10 (constructor 0)
         = (Inr smry, (constructor 0)\<lparr>AnalyticsEngine.lastUpdated := Some 99\<rparr>))
   \<and> getLastUpdated
        (generateSummaries
           [(example_faults, example_db, 50, 0, 10), (no_faults, example_db, 99, 0, 10),
            (example_faults, example_db, 120, 0, 10)]
           (constructor 0)) = Some 99"
proof -
  have "\<exists>r. example_faults r \<noteq> None"
    by (simp add: example_faults_def)
  moreover have "\<forall>r. no_faults r = None"
    by (simp add: no_faults_def)
  moreover have "first_fault example_faults \<noteq> None" and "first_fault no_faults = None"
    by (simp_all add: first_fault_unfold example_faults_def no_faults_def)
  ultimately show ?thesis
    using store_failure_propagates [of example_faults example_db 99 0 10 "constructor 0" 0
        "[(example_faults, example_db, 50, 0, 10), (no_faults, example_db, 99, 0, 10),
          (example_faults, example_db, 120, 0, 10)]"]
      store_failure_propagates [of no_faults example_db 99 0 10 "constructor 0" 0 "[]"]
    by auto
qed

section \<open>Repeated calls\<close>

lemma generateSummary_independent:
  "map_sum id without_lastUpdated (fst (generateSummary fs db now s e this))
     = map_sum id without_lastUpdated (fst (generateSummary fs db now' s e this'))"
  by (simp add: generateSummary_def await_def Let_def without_lastUpdated_def
      split: sum.splits)

text \<open>
  C8. Two calls of \<open>generateSummary\<close> on the same engine, one after the other, with the
  same arguments on the same store, reject with the same error or return summaries that
  are equal in every field but \<open>lastUpdated\<close>, whatever the clock shows and whatever the
  first call left in the engine.
\<close>

theorem generateSummary_repeatable:
  "map_sum id without_lastUpdated (fst (generateSummary fs db now1 s e this))
     = map_sum id without_lastUpdated
         (fst (generateSummary fs db now2 s e (snd (generateSummary fs db now1 s e this))))"
  by (rule generateSummary_independent)

section \<open>An inverted range\<close>

lemma sort_js_all_le:
  assumes "\<forall>x \<in> set xs. \<forall>y \<in> set xs. cmp x y \<le> 0"
  shows "sort_js cmp xs = xs"
  using assms
proof (induction xs)
  case Nil
  then show ?case by simp
next
  case (Cons x xs)
  then have "sort_js cmp xs = xs" by simp
  with Cons.prems show ?case by (cases xs) simp_all
qed

lemma not_in_window: "e < s \<Longrightarrow> \<not> in_window s e t"
  by (simp add: in_window_def)

lemma locationEntry_inverted:
  "e < s \<Longrightarrow> locationEntry (include_posts db foreignKey s e n) = empty_entry n"
  using locationEntry_no_posts [of "include_posts db foreignKey s e n"]
  by (simp add: include_posts_def not_in_window empty_entry_def)

lemma locationEntry_inverted_comp:
  "e < s \<Longrightarrow> locationEntry \<circ> include_posts db foreignKey s e = empty_entry"
  by (rule ext) (simp add: locationEntry_inverted)

lemma engagementScore_empty_entry: "engagementScore (empty_entry n) = 0"
  by (simp add: empty_entry_def)

lemma sort_empty_entries:
  "sort_js (\<lambda>a b. fsub (engagementScore b) (engagementScore a)) (map empty_entry nodes)
     = map empty_entry nodes"
  by (rule sort_js_all_le) (auto simp: engagementScore_empty_entry fsub_def fl64_0)

lemma getLocationStats_inverted:
  assumes "e < s" and "\<forall>r. fs r = None"
  shows "getLocationStats fs db s e Cell = Inr (map empty_entry (db_cells db))"
    and "getLocationStats fs db s e Sector = Inr (map empty_entry (db_sectors db))"
    and "getLocationStats fs db s e District = Inr (map empty_entry (db_districts db))"
  using assms
  by (simp_all add: getLocationStats_def cell_findMany_def sector_findMany_def
      district_findMany_def query_def locationEntry_inverted_comp sort_empty_entries)

lemma stats_inverted:
  assumes "e < s" and "\<forall>r. fs r = None"
  shows "post_count fs db s e = Inr 0"
    and "comment_count fs db s e = Inr 0"
    and "reaction_count fs db s e = Inr 0"
    and "repost_count fs db s e = Inr 0"
    and "getCategoryStats fs db s e = Inr []"
    and "getHashtagStats fs db s e = Inr []"
  using assms
  by (simp_all add: post_count_def comment_count_def reaction_count_def repost_count_def
      getCategoryStats_def getHashtagStats_def post_findMany_def query_def not_in_window)

text \<open>
  C3. When \<open>startDate\<close> is later than \<open>endDate\<close> and the reads of the store succeed,
  \<open>generateSummary\<close> raises no error: it returns the summary whose national totals are all
  zero and whose category and hashtag breakdowns are empty, and sets \<open>lastUpdated\<close>. The
  three location lists still hold one entry for every node, in the order of the store, with
  no posts, no engagement, score 0 and an empty category breakdown.
\<close>

theorem inverted_range_empty_summary:
  assumes "endDate' < startDate'" and "\<forall>r. fs r = None"
  shows "generateSummary fs db now startDate' endDate' this =
     (Inr \<lparr>period = \<lparr>startDate = startDate', endDate = endDate'\<rparr>,
           national = \<lparr>totalPosts = 0, totalComments = 0, totalReactions = 0,
                       totalReposts = 0, totalEngagement = 0\<rparr>,
           topCategories = [], topHashtags = [],
           cellStats = map empty_entry (db_cells db),
           sectorStats = map empty_entry (db_sectors db),
           districtStats = map empty_entry (db_districts db),
           lastUpdated = now\<rparr>,
      this\<lparr>AnalyticsEngine.lastUpdated := Some now\<rparr>)"
  unfolding generateSummary_def await_def
  by (simp add: stats_inverted [OF assms] getLocationStats_inverted [OF assms])

theorem inverted_range_empty_summary_witness:
  "(0::int) < 10 \<and> (\<forall>r. no_faults r = None)
   \<and> generateSummary no_faults example_db 99 10 0 (constructor 0) =
     (Inr \<lparr>period = \<lparr>startDate = 10, endDate = 0\<rparr>,
           national = \<lparr>totalPosts = 0, totalComments = 0, totalReactions = 0,
                       totalReposts = 0, totalEngagement = 0\<rparr>,
           topCategories = [], topHashtags = [],
           cellStats =
             [\<lparr>name = ''Cell 2'', id' = ''c2'', totalPosts = 0, totalEngagement = 0,
               engagementScore = 0, topCategories = []\<rparr>,
              \<lparr>name = ''Cell 1'', id' = ''c1'', totalPosts = 0, totalEngagement = 0,
               engagementScore = 0, topCategories = []\<rparr>],
           sectorStats =
             [\<lparr>name = ''Sector 1'', id' = ''s1'', totalPosts = 0, totalEngagement = 0,
               engagementScore = 0, topCategories = []\<rparr>],
           districtStats =
             [\<lparr>name = ''District 1'', id' = ''d1'', totalPosts = 0, totalEngagement = 0,
               engagementScore = 0, topCategories = []\<rparr>],
           lastUpdated = 99\<rparr>,
      \<lparr>prisma = 0, lastUpdated = Some 99\<rparr>)"
  using inverted_range_empty_summary [of 0 10 no_faults example_db 99 "constructor 0"]
  by (simp add: no_faults_def example_db_def empty_entry_def constructor_def)

section \<open>Engagement totals\<close>

lemma locationEntry_include_posts:
  "locationEntry (include_posts db foreignKey s e n) =
     (let ps = in_window_posts db foreignKey s e n;
          c = attached_comments db ps; r = attached_reactions db ps;
          rp = attached_reposts db ps
      in \<lparr>name = location_name n, id' = location_id n, totalPosts = length ps,
          totalEngagement = length ps + c + r + rp,
          engagementScore = calculateEngagementScore (length ps) c r rp,
          topCategories = getCategoryStatsForLocation (map post_category ps)\<rparr>)"
  by (simp add: locationEntry_def include_posts_def include_relations_def Let_def
      foldl_add_sum_list in_window_posts_def attached_comments_def attached_reactions_def
      attached_reposts_def comp_def)

lemma counts_every_node_sort:
  "counts_every_node db foreignKey s e nodes
     (sort_js cmp (map (locationEntry \<circ> include_posts db foreignKey s e) nodes))"
  unfolding counts_every_node_def
  by (simp only: mset_map mset_sort_js)
    (simp add: locationEntry_include_posts Let_def comp_def flip: mset_map)

lemma attached_redate:
  "attached_comments (redate f g h db) ps = attached_comments db ps"
  "attached_reactions (redate f g h db) ps = attached_reactions db ps"
  "attached_reposts (redate f g h db) ps = attached_reposts db ps"
  by (simp_all add: attached_comments_def attached_reactions_def attached_reposts_def
      redate_def comp_def)

lemma in_window_posts_redate:
  "in_window_posts (redate f g h db) foreignKey s e n = in_window_posts db foreignKey s e n"
  by (simp add: in_window_posts_def redate_def)

lemma locationEntry_redate:
  "locationEntry \<circ> include_posts (redate f g h db) foreignKey s e
     = locationEntry \<circ> include_posts db foreignKey s e"
  by (rule ext)
    (simp add: locationEntry_include_posts attached_redate in_window_posts_redate)

lemma getLocationStats_redate:
  "getLocationStats fs (redate f g h db) s e t = getLocationStats fs db s e t"
proof -
  have "db_cells (redate f g h db) = db_cells db" "db_sectors (redate f g h db) = db_sectors db"
    "db_districts (redate f g h db) = db_districts db"
    by (simp_all add: redate_def)
  then show ?thesis
    by (cases t)
      (simp_all add: getLocationStats_def cell_findMany_def sector_findMany_def
        district_findMany_def query_def locationEntry_redate split: option.splits)
qed

lemma count_Inr:
  "post_count fs db s e = Inr n
     \<Longrightarrow> n = length (filter (\<lambda>p. in_window s e (post_createdAt p)) (db_posts db))"
  "comment_count fs db s e = Inr n
     \<Longrightarrow> n = length (filter (\<lambda>c. in_window s e (comment_createdAt c)) (db_comments db))"
  "reaction_count fs db s e = Inr n
     \<Longrightarrow> n = length (filter (\<lambda>r. in_window s e (reaction_createdAt r)) (db_reactions db))"
  "repost_count fs db s e = Inr n
     \<Longrightarrow> n = length (filter (\<lambda>r. in_window s e (repost_createdAt r)) (db_reposts db))"
  by (simp_all add: post_count_def comment_count_def reaction_count_def repost_count_def
      query_Inr)

text \<open>
  C5. In every summary the national \<open>totalEngagement\<close> is the sum of the four national
  totals, each of which counts the rows of its table whose own \<open>createdAt\<close> lies in the
  window. Each location list has, for every node of its level, the number of the node's
  posts in the window and, as \<open>totalEngagement\<close>, that number plus the numbers of all
  comments, reactions and reposts attached to these posts; the location lists do not change
  when the creation times of the comments, reactions and reposts do.
\<close>

theorem engagement_totals:
  assumes "generateSummary fs db now s e this = (Inr smry, this')"
  shows "National.totalPosts (national smry)
           = length (filter (\<lambda>p. in_window s e (post_createdAt p)) (db_posts db))
     \<and> totalComments (national smry)
           = length (filter (\<lambda>c. in_window s e (comment_createdAt c)) (db_comments db))
     \<and> totalReactions (national smry)
           = length (filter (\<lambda>r. in_window s e (reaction_createdAt r)) (db_reactions db))
     \<and> totalReposts (national smry)
           = length (filter (\<lambda>r. in_window s e (repost_createdAt r)) (db_reposts db))
     \<and> National.totalEngagement (national smry)
           = National.totalPosts (national smry) + totalComments (national smry)
             + totalReactions (national smry) + totalReposts (national smry)
     \<and> counts_every_node db post_cellId s e (db_cells db) (cellStats smry)
     \<and> counts_every_node db post_sectorId s e (db_sectors db) (sectorStats smry)
     \<and> counts_every_node db post_districtId s e (db_districts db) (districtStats smry)
     \<and> getLocationStats fs (redate f g h db) s e Cell = Inr (cellStats smry)
     \<and> getLocationStats fs (redate f g h db) s e Sector = Inr (sectorStats smry)
     \<and> getLocationStats fs (redate f g h db) s e District = Inr (districtStats smry)"
proof -
  note g = generateSummary_Inr [OF assms]
  have "counts_every_node db post_cellId s e (db_cells db) (cellStats smry)"
    "counts_every_node db post_sectorId s e (db_sectors db) (sectorStats smry)"
    "counts_every_node db post_districtId s e (db_districts db) (districtStats smry)"
    using getLocationStats_Inr [OF g(8)] getLocationStats_Inr [OF g(9)]
      getLocationStats_Inr [OF g(10)]
    by (simp_all add: counts_every_node_sort)
  then show ?thesis
    using count_Inr(1) [OF g(1)] count_Inr(2) [OF g(2)] count_Inr(3) [OF g(3)]
      count_Inr(4) [OF g(4)] g(5) g(8) g(9) g(10)
    by (simp add: getLocationStats_redate)
qed

theorem engagement_totals_witness:
  "generateSummary no_faults example_db 99 0 10 (constructor 0)
     = (Inr example_summary, \<lparr>prisma = 0, lastUpdated = Some 99\<rparr>)
   \<and> National.totalEngagement (national example_summary)
       = National.totalPosts (national example_summary) + totalComments (national example_summary)
         + totalReactions (national example_summary) + totalReposts (national example_summary)
   \<and> counts_every_node example_db post_cellId 0 10 (db_cells example_db)
        (cellStats example_summary)
   \<and> counts_every_node example_db post_sectorId 0 10 (db_sectors example_db)
        (sectorStats example_summary)
   \<and> counts_every_node example_db post_districtId 0 10 (db_districts example_db)
        (districtStats example_summary)
   \<and> getLocationStats no_faults (redate (\<lambda>c. 0) (\<lambda>r. 0) (\<lambda>r. 0) example_db) 0 10 Cell
       = Inr (cellStats example_summary)"
  using engagement_totals [OF example_run, of "\<lambda>c. 0" "\<lambda>r. 0" "\<lambda>r. 0"] example_run
  by simp

section \<open>Counting with a Map\<close>

lemma map_of_map_set: "map_of (map_set m k v) = (map_of m)(k \<mapsto> v)"
  by (induction m) auto

lemma keys_map_set:
  "map fst (map_set m k v) = (if k \<in> fst ` set m then map fst m else map fst m @ [k])"
  by (induction m) force+

lemma or_undefined_0: "or_undefined x 0 = (case x of None \<Rightarrow> 0 | Some v \<Rightarrow> v)"
  by (cases x) (simp_all add: js_or_def)

lemma map_of_increment:
  "map_of (increment m k) = (map_of m)(k \<mapsto> (case map_of m k of None \<Rightarrow> 0 | Some v \<Rightarrow> v) + 1)"
  by (simp add: increment_def map_of_map_set map_get_def or_undefined_0)

lemma keys_increment:
  "map fst (increment m k) = (if k \<in> fst ` set m then map fst m else map fst m @ [k])"
  by (simp add: increment_def keys_map_set)

lemma keyset_increment: "fst ` set (increment m k) = insert k (fst ` set m)"
proof -
  have "set (map fst (increment m k)) = insert k (set (map fst m))"
    unfolding keys_increment by auto
  then show ?thesis by simp
qed

lemma set_first_seen: "set (first_seen xs) = set xs"
  by (induction xs) auto

lemma distinct_first_seen: "distinct (first_seen xs)"
  by (induction xs) (simp_all add: set_first_seen)

lemma keys_fold_increment:
  "map fst (fold (\<lambda>c m. increment m c) cs m)
     = map fst m @ filter (\<lambda>c. c \<notin> fst ` set m) (first_seen cs)"
proof (induction cs arbitrary: m)
  case Nil
  then show ?case by simp
next
  case (Cons c cs)
  show ?case
  proof (cases "c \<in> fst ` set m")
    case True
    have "filter (\<lambda>x. x \<notin> fst ` set m) (filter (\<lambda>y. y \<noteq> c) (first_seen cs))
        = filter (\<lambda>x. x \<notin> fst ` set m) (first_seen cs)"
      using True by (auto intro: filter_cong)
    with True show ?thesis
      using Cons.IH [of "increment m c"] keys_increment [of m c]
      by (simp add: keyset_increment insert_absorb)
  next
    case False
    have "filter (\<lambda>x. x \<notin> fst ` set m) (filter (\<lambda>y. y \<noteq> c) (first_seen cs))
        = filter (\<lambda>x. x \<noteq> c \<and> x \<notin> fst ` set m) (first_seen cs)"
      by (auto intro: filter_cong)
    with False show ?thesis
      using Cons.IH [of "increment m c"] keys_increment [of m c]
      by (simp add: keyset_increment conj_commute)
  qed
qed

lemma map_of_fold_increment:
  "map_of (fold (\<lambda>c m. increment m c) cs m) k
     = (if k \<in> set cs
        then Some (count_list cs k + (case map_of m k of None \<Rightarrow> 0 | Some v \<Rightarrow> v))
        else map_of m k)"
proof (induction cs arbitrary: m)
  case Nil
  then show ?case by simp
next
  case (Cons c cs)
  show ?case
    using Cons.IH [of "increment m c"]
    by (auto simp: map_of_increment split: option.splits)
qed

lemma alist_eq_keys:
  "distinct (map fst l) \<Longrightarrow> l = map (\<lambda>k. (k, the (map_of l k))) (map fst l)"
proof (induction l)
  case Nil
  then show ?case by simp
next
  case (Cons p l)
  then have "map (\<lambda>k. (k, the (map_of (p # l) k))) (map fst l)
      = map (\<lambda>k. (k, the (map_of l k))) (map fst l)"
    by (intro map_cong) (auto simp: rev_image_eqI)
  with Cons show ?case by (cases p) simp
qed

lemma fold_increment:
  "fold (\<lambda>c m. increment m c) cs [] = map (\<lambda>c. (c, count_list cs c)) (first_seen cs)"
proof -
  let ?l = "fold (\<lambda>c m. increment m c) cs []"
  have keys: "map fst ?l = first_seen cs"
    using keys_fold_increment [of cs "[]"] by simp
  then have "distinct (map fst ?l)" by (simp add: distinct_first_seen)
  from alist_eq_keys [OF this] have "?l = map (\<lambda>k. (k, the (map_of ?l k))) (first_seen cs)"
    by (simp add: keys)
  also have "\<dots> = map (\<lambda>c. (c, count_list cs c)) (first_seen cs)"
    by (intro map_cong) (simp_all add: map_of_fold_increment set_first_seen)
  finally show ?thesis .
qed

section \<open>The category breakdowns\<close>

lemma js_or_max_Suc: "js_or a (Suc 0) = max a (Suc 0)"
  using js_or_max [of a] by simp

lemma category_breakdown_sort:
  "category_breakdown cats
     (sort_js (\<lambda>a b. int (CategoryStats.count b) - int (CategoryStats.count a))
        (map (\<lambda>(category, count).
                \<lparr>category = category, count = count,
                 percentage = Math_round (fmul (fdiv (of_nat count)
                   (of_nat (js_or (length cats) 1))) 100)\<rparr>)
           (fold (\<lambda>c m. increment m c) cats [])))"
proof -
  define mk where "mk c = \<lparr>category = c, count = count_list cats c,
      percentage = spec_percentage (count_list cats c) (length cats)\<rparr>" for c
  define E where "E = map mk (first_seen cats)"
  define R where
    "R = sort_js (\<lambda>a b. int (CategoryStats.count b) - int (CategoryStats.count a)) E"
  have E: "map (\<lambda>(category, count).
                \<lparr>category = category, count = count,
                 percentage = Math_round (fmul (fdiv (of_nat count)
                   (of_nat (js_or (length cats) 1))) 100)\<rparr>)
           (fold (\<lambda>c m. increment m c) cats []) = E"
    by (simp add: fold_increment E_def mk_def spec_percentage_def js_or_max_Suc comp_def)
  have cat_mk: "category (mk c) = c" and count_mk: "CategoryStats.count (mk c) = count_list cats c"
    for c by (simp_all add: mk_def)
  have cats_E: "map category E = first_seen cats"
    by (simp add: E_def comp_def cat_mk)
  have "mset (map category R) = mset (map category E)"
    unfolding R_def by (simp only: mset_map mset_sort_js)
  then have mset_R: "mset (map category R) = mset (first_seen cats)"
    by (simp only: cats_E)
  have "distinct (map category R)"
    using mset_eq_imp_distinct_iff [OF mset_R] by (simp add: distinct_first_seen)
  moreover have "set (map category R) = set cats"
    using mset_eq_setD [OF mset_R] by (simp add: set_first_seen)
  moreover have "\<forall>st \<in> set R.
           CategoryStats.count st = count_list cats (category st)
           \<and> CategoryStats.percentage st = spec_percentage (CategoryStats.count st) (length cats)"
    by (auto simp: R_def set_sort_js E_def mk_def)
  moreover have "sorted_wrt (\<lambda>a b. CategoryStats.count b \<le> CategoryStats.count a) R"
    unfolding R_def by (rule sorted_sort_js) simp
  moreover have "map category (filter (\<lambda>st. CategoryStats.count st = k) R)
              = filter (\<lambda>c. count_list cats c = k) (first_seen cats)" for k
  proof -
    have "filter (\<lambda>st. CategoryStats.count st = k) R
        = filter (\<lambda>st. CategoryStats.count st = k) E"
      unfolding R_def by (rule sort_js_stable) simp
    then show ?thesis
      by (simp add: E_def filter_map comp_def cat_mk count_mk)
  qed
  ultimately have "category_breakdown cats R"
    unfolding category_breakdown_def by blast
  then show ?thesis by (simp only: R_def E)
qed

lemma getCategoryStats_Inr:
  assumes "getCategoryStats fs db s e = Inr R"
  shows "category_breakdown
     (map post_category (filter (\<lambda>p. in_window s e (post_createdAt p)) (db_posts db))) R"
proof -
  from assms have "R = sort_js (\<lambda>a b. int (CategoryStats.count b) - int (CategoryStats.count a))
        (map (\<lambda>(category, count).
                \<lparr>category = category, count = count,
                 percentage = Math_round (fmul (fdiv (of_nat count)
                   (of_nat (js_or (length (map post_category
                      (filter (\<lambda>p. in_window s e (post_createdAt p)) (db_posts db)))) 1))) 100)\<rparr>)
           (fold (\<lambda>c m. increment m c)
              (map post_category (filter (\<lambda>p. in_window s e (post_createdAt p)) (db_posts db)))
              []))"
    by (auto simp: getCategoryStats_def post_findMany_def query_def Let_def
        split: sum.splits option.splits)
  then show ?thesis by (simp only: category_breakdown_sort)
qed

lemma top5_getCategoryStatsForLocation:
  "top5_breakdown cats (getCategoryStatsForLocation cats)"
  unfolding top5_breakdown_def getCategoryStatsForLocation_def Let_def
  using category_breakdown_sort [of cats] by blast

lemma breaks_down_every_node_sort:
  "breaks_down_every_node db foreignKey s e nodes
     (sort_js cmp (map (locationEntry \<circ> include_posts db foreignKey s e) nodes))"
  unfolding breaks_down_every_node_def
  by (auto simp: set_sort_js locationEntry_include_posts Let_def
      top5_getCategoryStatsForLocation)

text \<open>
  The percentage is a rounded double: 113 posts of 200 are 56 per cent, since
  \<^verbatim>\<open>113 / 200 * 100\<close> is \<^verbatim>\<open>56.49999999999999\<close> in floating arithmetic, where the exact
  value 56.5 would go up to 57.
\<close>

lemma percentage_floating:
  "spec_percentage 113 200 = 56 \<and> Math_round (113 / 200 * 100) = 57"
  by code_simp

lemma top5_length: "top5_breakdown cats T \<Longrightarrow> length T \<le> 5"
  by (auto simp: top5_breakdown_def)

text \<open>
  C6. In every summary \<open>topCategories\<close> is the ranked breakdown of the categories of the
  posts of the window: every category with a post, none left out; each with its count and
  with the percentage \<open>round(count / max(posts in the window, 1) * 100)\<close>, in floating
  arithmetic; sorted by count, highest first, equal counts in the order of first
  encounter. In each location list, every node has an entry and every entry belongs to a
  node, and its \<open>topCategories\<close> are the first five entries of the same breakdown of the
  node's posts in the window.
\<close>

theorem category_breakdowns:
  assumes "generateSummary fs db now s e this = (Inr smry, this')"
  shows "category_breakdown
           (map post_category (filter (\<lambda>p. in_window s e (post_createdAt p)) (db_posts db)))
           (AnalyticsSummary.topCategories smry)
     \<and> breaks_down_every_node db post_cellId s e (db_cells db) (cellStats smry)
     \<and> breaks_down_every_node db post_sectorId s e (db_sectors db) (sectorStats smry)
     \<and> breaks_down_every_node db post_districtId s e (db_districts db) (districtStats smry)
     \<and> (\<forall>st \<in> set (cellStats smry @ sectorStats smry @ districtStats smry).
           length (LocationStats.topCategories st) \<le> 5)"
proof -
  note g = generateSummary_Inr [OF assms]
  have b: "breaks_down_every_node db post_cellId s e (db_cells db) (cellStats smry)"
    "breaks_down_every_node db post_sectorId s e (db_sectors db) (sectorStats smry)"
    "breaks_down_every_node db post_districtId s e (db_districts db) (districtStats smry)"
    using getLocationStats_Inr [OF g(8)] getLocationStats_Inr [OF g(9)]
      getLocationStats_Inr [OF g(10)]
    by (simp_all add: breaks_down_every_node_sort)
  then have "\<forall>st \<in> set (cellStats smry @ sectorStats smry @ districtStats smry).
           length (LocationStats.topCategories st) \<le> 5"
    unfolding breaks_down_every_node_def by (auto dest: top5_length)
  with b getCategoryStats_Inr [OF g(6)] show ?thesis by simp
qed

theorem category_breakdowns_witness:
  "generateSummary no_faults example_db 99 0 10 (constructor 0)
     = (Inr example_summary, \<lparr>prisma = 0, lastUpdated = Some 99\<rparr>)
   \<and> category_breakdown
        (map post_category (filter (\<lambda>p. in_window 0 10 (post_createdAt p)) (db_posts example_db)))
        (AnalyticsSummary.topCategories example_summary)
   \<and> breaks_down_every_node example_db post_cellId 0 10 (db_cells example_db)
        (cellStats example_summary)
   \<and> breaks_down_every_node example_db post_sectorId 0 10 (db_sectors example_db)
        (sectorStats example_summary)
   \<and> breaks_down_every_node example_db post_districtId 0 10 (db_districts example_db)
        (districtStats example_summary)"
  using category_breakdowns [OF example_run] example_run
  by simp

section \<open>The hashtag percentages\<close>

lemma fold_hashtags_concat:
  "fold (\<lambda>hashtags m.
           if hashtags \<noteq> [] then fold (\<lambda>tag m'. increment m' tag) hashtags m else m)
     posts m
   = fold (\<lambda>tag m'. increment m' tag) (concat posts) m"
  by (induction posts arbitrary: m) auto

lemma sum_count_first_seen: "sum_list (map (count_list xs) (first_seen xs)) = length xs"
proof -
  have "sum_list (map (count_list xs) (first_seen xs)) = sum (count_list xs) (set (first_seen xs))"
    by (rule sum_list_distinct_conv_sum_set) (rule distinct_first_seen)
  also have "\<dots> = length xs"
    by (simp add: set_first_seen sum_count_set)
  finally show ?thesis .
qed

lemma foldl_plus_counts:
  "foldl (+) (Suc 0) (map (count_list xs) (first_seen xs)) = Suc (length xs)"
  using foldl_add_sum_list [of "\<lambda>b. b" 1 "map (count_list xs) (first_seen xs)"]
  by (simp add: sum_count_first_seen)

lemma getHashtagStats_denominator:
  assumes "getHashtagStats fs db s e = Inr H"
    and "h \<in> set H"
  shows "HashtagStats.count h
           = count_list
               (concat (map post_hashtags
                  (filter (\<lambda>p. in_window s e (post_createdAt p)) (db_posts db))))
               (hashtag h)
     \<and> HashtagStats.percentage h
           = Math_round (fmul (fdiv (of_nat (HashtagStats.count h))
               (of_nat (1 + length (concat (map post_hashtags
                  (filter (\<lambda>p. in_window s e (post_createdAt p)) (db_posts db))))))) 100)"
proof -
  define tags where "tags = concat (map post_hashtags
                  (filter (\<lambda>p. in_window s e (post_createdAt p)) (db_posts db)))"
  define mk where "mk = (\<lambda>t. \<lparr>hashtag = t, count = count_list tags t,
      percentage = Math_round (fmul (fdiv (of_nat (count_list tags t))
        (of_nat (1 + length tags))) 100)\<rparr>)"
  from assms(1) have "H = take 10
      (sort_js (\<lambda>a b. int (HashtagStats.count b) - int (HashtagStats.count a))
         (map mk (first_seen tags)))"
    by (auto simp: getHashtagStats_def post_findMany_def query_def Let_def
        fold_hashtags_concat fold_increment foldl_plus_counts mk_def tags_def comp_def
        split: option.splits)
  with assms(2) have "h \<in> set (map mk (first_seen tags))"
    using set_sort_js by (metis in_set_takeD)
  then show ?thesis
    by (auto simp: mk_def tags_def)
qed

text \<open>
  C1. The scenario of the specification: in the window the tag \<open>#a\<close> occurs three times and
  the tag \<open>#b\<close> once, on two posts. The total of \<open>getHashtagStats\<close> is the sum of the
  counts folded from the initial value 1, which is 5 and not \<open>max 4 1\<close>: the percentages are
  60 and 20, where the specification has 75 and 25.
\<close>

theorem hashtag_percentages_at_scenario:
  "map post_hashtags (filter (\<lambda>p. in_window 0 10 (post_createdAt p)) (db_posts example_db))
     = [[''#a'', ''#a'', ''#b''], [''#a'']]
   \<and> getHashtagStats no_faults example_db 0 10
     = Inr [\<lparr>hashtag = ''#a'', count = 3, percentage = 60\<rparr>,
            \<lparr>hashtag = ''#b'', count = 1, percentage = 20\<rparr>]
   \<and> getHashtagStats no_faults example_db 0 10
     \<noteq> Inr [\<lparr>hashtag = ''#a'', count = 3, percentage = 75\<rparr>,
            \<lparr>hashtag = ''#b'', count = 1, percentage = 25\<rparr>]"
  using example_reads(6)
  by (simp add: example_summary_def example_db_def in_window_def)

end
